theory Spec2Isabelle
  imports Complex_Main "HOL-Library.Sublist"
begin

section \<open>Python values, statements and exceptions\<close>

text \<open>
  The two tutorial notebooks are scripts over external libraries (ASE, CatLearn, numpy,
  matplotlib). What a notebook does to the outside world is the sequence of statements
  that reach a library: imports, calls and method calls with their arguments. Each such
  statement is recorded, in execution order, in the trace of the world.

  A literal argument keeps its value; \<open>PPath\<close> is a string literal that names a file;
  \<open>PDec m k\<close> is the decimal literal \<open>m / 10^k\<close>; \<open>PExpr e\<close> is an argument that is not a
  literal, given by the text of the expression (the quotes inside it left out).
\<close>

datatype exc = IndexError | ValueError | ZeroDivisionError | Unbound | LibraryError string

datatype pyval =
    PStr string
  | PPath string
  | PInt int
  | PDec int nat
  | PBool bool
  | PTuple "pyval list"
  | PExpr string

text \<open>
  \<open>Call target f args kwargs\<close> is \<open>target = f(args, kwargs)\<close>, where \<open>f\<close> is a function
  or a class, possibly of a module (\<open>np.shape\<close>);
  \<open>Method target v m args kwargs\<close> is \<open>target = v.m(args, kwargs)\<close>;
  \<open>Compute v\<close> is a statement that computes \<open>v\<close> from attributes or items of library
  objects without calling a function of the library.
\<close>

datatype stmt =
    Magic string
  | Import string "string list"
  | Call "string option" string "pyval list" "(string \<times> pyval) list"
  | Method "string option" string string "pyval list" "(string \<times> pyval) list"
  | Compute string

section \<open>The world: trace and store of list objects\<close>

text \<open>
  Python lists are mutable objects. The store maps the address of a list object to its
  current elements; the elements are arrays, an array being the list of its entries
  along axis 0. \<open>fresh\<close> is the next unused address.
\<close>

record 'r world =
  trace :: "stmt list"
  heap :: "nat \<rightharpoonup> 'r list list"
  fresh :: nat

text \<open>
  The external library. \<open>raises\<close> decides, from the statements executed so far, whether
  a statement whose result the notebook does not inspect raises. The other fields are the
  library functions whose results the notebook computes with; each returns its value or
  raises.
\<close>

record ('c, 'r, 'g, 'p) library =
  raises :: "stmt list \<Rightarrow> stmt \<Rightarrow> exc option"
  get_all_relaxed_candidates :: "exc + 'c list"
  return_vec :: "'c list \<Rightarrow> exc + 'r list"
  raw_score :: "'c \<Rightarrow> exc + 'r"
  k_fold :: "'r list \<Rightarrow> 'r list \<Rightarrow> nat \<Rightarrow> exc + ('r list list \<times> 'r list list)"
  GaussianProcess :: "'r list \<Rightarrow> 'r list \<Rightarrow> exc + 'g"
  predict :: "'g \<Rightarrow> 'r list \<Rightarrow> exc + 'p"
  get_error :: "'p \<Rightarrow> 'r list \<Rightarrow> exc + real"

section \<open>Statements in sequence, exceptions\<close>

text \<open>
  A program takes the world and either raises (\<open>Inl\<close>: the exception and the world at
  that moment) or returns a value and the new world. No cell of either notebook contains
  \<open>try\<close>, so sequencing with \<open>bnd\<close> is the only way programs are combined: the first
  exception ends the script.
\<close>

type_synonym ('a, 'r) prog = "'r world \<Rightarrow> (exc \<times> 'r world) + ('a \<times> 'r world)"

definition ret :: "'a \<Rightarrow> ('a, 'r) prog" where
  "ret a w = Inr (a, w)"

definition raise :: "exc \<Rightarrow> ('a, 'r) prog" where
  "raise e w = Inl (e, w)"

definition bnd :: "('a, 'r) prog \<Rightarrow> ('a \<Rightarrow> ('b, 'r) prog) \<Rightarrow> ('b, 'r) prog" where
  "bnd m f w = (case m w of Inl r \<Rightarrow> Inl r | Inr (a, w') \<Rightarrow> f a w')"

text \<open>\<open>for i in xs: acc = body(i, acc)\<close>\<close>

fun for_each :: "'i list \<Rightarrow> ('i \<Rightarrow> 'acc \<Rightarrow> ('acc, 'r) prog) \<Rightarrow> 'acc \<Rightarrow> ('acc, 'r) prog" where
  "for_each [] body acc = ret acc"
| "for_each (i # is) body acc = bnd (body i acc) (for_each is body)"

text \<open>A library call: the statement enters the trace, then the call returns or raises.\<close>

definition ask :: "stmt \<Rightarrow> exc + 'a \<Rightarrow> ('a, 'r) prog" where
  "ask s r w =
     (let w' = w\<lparr>trace := trace w @ [s]\<rparr>
      in case r of Inl e \<Rightarrow> Inl (e, w') | Inr v \<Rightarrow> Inr (v, w'))"

definition perform :: "('c, 'r, 'g, 'p) library \<Rightarrow> stmt \<Rightarrow> (unit, 'r) prog" where
  "perform lib s w =
     ask s (case raises lib (trace w) s of Some e \<Rightarrow> Inl e | None \<Rightarrow> Inr ()) w"

fun perform_all :: "('c, 'r, 'g, 'p) library \<Rightarrow> stmt list \<Rightarrow> (unit, 'r) prog" where
  "perform_all lib [] = ret ()"
| "perform_all lib (s # ss) = bnd (perform lib s) (\<lambda>_. perform_all lib ss)"

section \<open>Python lists and numpy\<close>

text \<open>A list display or a list returned by a library is a new object.\<close>

definition new_list :: "'r list list \<Rightarrow> (nat, 'r) prog" where
  "new_list xs w = Inr (fresh w, w\<lparr>heap := (heap w)(fresh w \<mapsto> xs), fresh := Suc (fresh w)\<rparr>)"

text \<open>
  Reading the list object at an address. A variable of the notebook always holds an object;
  an address without one is outside Python, and the model raises \<open>Unbound\<close> there.
\<close>

definition list_get :: "nat \<Rightarrow> ('r list list, 'r) prog" where
  "list_get a w = (case heap w a of None \<Rightarrow> Inl (Unbound, w) | Some xs \<Rightarrow> Inr (xs, w))"

text \<open>\<open>a.copy()\<close>: a shallow copy, a new list object with the same elements.\<close>

definition list_copy :: "nat \<Rightarrow> (nat, 'r) prog" where
  "list_copy a = bnd (list_get a) new_list"

text \<open>
  \<open>a.pop(index)\<close> removes and returns the element at \<open>index\<close> of the list object at \<open>a\<close>,
  and raises IndexError out of range. The notebook's indices come from \<open>range\<close>, so they
  are never negative.
\<close>

definition list_pop :: "nat \<Rightarrow> nat \<Rightarrow> ('r list, 'r) prog" where
  "list_pop a index w =
     (case heap w a of
        None \<Rightarrow> Inl (Unbound, w)
      | Some xs \<Rightarrow>
          if index < length xs
          then Inr (xs ! index, w\<lparr>heap := (heap w)(a \<mapsto> take index xs @ drop (Suc index) xs)\<rparr>)
          else Inl (IndexError, w))"

text \<open>
  \<open>np.concatenate(v, axis=0)\<close>: the arrays of the list one after the other along axis 0;
  numpy raises ValueError when the list holds no array. The arrays of one list are taken
  to agree in their other dimensions, as the subsets that \<open>k_fold\<close> cuts from one matrix do.
\<close>

definition np_concatenate :: "string \<Rightarrow> 'r list list \<Rightarrow> ('r list, 'r) prog" where
  "np_concatenate v xs =
     ask (Call (Some v) ''np.concatenate'' [PExpr v] [(''axis'', PInt 0)])
       (if xs = [] then Inl ValueError else Inr (concat xs))"

section \<open>The cross-validation notebook: prediction and loop\<close>

text \<open>
  \<open>gp_predict\<close> of the notebook. The dictionary it returns has the keys \<open>result\<close> and
  \<open>size\<close>. The error is a Python float; it is modelled as a real number.
\<close>

record prediction =
  result :: real
  size_ :: nat

definition gp_predict ::
  "('c, 'r, 'g, 'p) library \<Rightarrow> 'r list \<Rightarrow> 'r list \<Rightarrow> 'r list \<Rightarrow> 'r list \<Rightarrow> (prediction, 'r) prog" where
  "gp_predict lib train_features train_targets test_features test_targets =
     bnd (ask (Call (Some ''gp'') ''GaussianProcess'' []
                 [(''train_fp'', PExpr ''train_features''), (''train_target'', PExpr ''train_targets''),
                  (''kernel_list'', PExpr ''kdict''), (''regularization'', PDec 1 2),
                  (''optimize_hyperparameters'', PBool True), (''scale_data'', PBool True)])
            (GaussianProcess lib train_features train_targets)) (\<lambda>gp.
     bnd (ask (Method (Some ''pred'') ''gp'' ''predict'' [] [(''test_fp'', PExpr ''test_features'')])
            (predict lib gp test_features)) (\<lambda>pred.
     bnd (ask (Call None ''get_error'' [PExpr ''pred'', PExpr ''test_targets''] [])
            (get_error lib pred test_targets)) (\<lambda>rmse_average.
     ret \<lparr>result = rmse_average, size_ = length train_targets\<rparr>)))"

text \<open>
  One pass of the loop body, for the list objects \<open>fsplit\<close> and \<open>tsplit\<close>:
  \<^verbatim>\<open>
    fcopy, tcopy = fsplit.copy(), tsplit.copy()
    ftest, ttest = fcopy.pop(index), tcopy.pop(index)
    fcopy = np.concatenate(fcopy, axis=0)
    tcopy = np.concatenate(tcopy, axis=0)
    y.append(gp_predict(fcopy, tcopy, ftest, ttest)['result'])
  \<close>
  The name \<open>fcopy\<close> is first the copied list and then the concatenated array; the model
  calls the second \<open>ftrain\<close> (and \<open>ttrain\<close> for \<open>tcopy\<close>).
\<close>

definition cv_fold ::
  "('c, 'r, 'g, 'p) library \<Rightarrow> nat \<Rightarrow> nat \<Rightarrow> nat \<Rightarrow> real list \<Rightarrow> (real list, 'r) prog" where
  "cv_fold lib fsplit tsplit index y =
     bnd (list_copy fsplit) (\<lambda>fcopy.
     bnd (list_copy tsplit) (\<lambda>tcopy.
     bnd (list_pop fcopy index) (\<lambda>ftest.
     bnd (list_pop tcopy index) (\<lambda>ttest.
     bnd (bnd (list_get fcopy) (np_concatenate ''fcopy'')) (\<lambda>ftrain.
     bnd (bnd (list_get tcopy) (np_concatenate ''tcopy'')) (\<lambda>ttrain.
     bnd (gp_predict lib ftrain ttrain ftest ttest) (\<lambda>data.
     ret (y @ [result data]))))))))"

text \<open>
  \<^verbatim>\<open>
    x, y = list(range(len(fsplit))), []
    for index in x: ...
  \<close>
\<close>

definition cv_loop ::
  "('c, 'r, 'g, 'p) library \<Rightarrow> nat \<Rightarrow> nat \<Rightarrow> (nat list \<times> real list, 'r) prog" where
  "cv_loop lib fsplit tsplit =
     bnd (list_get fsplit) (\<lambda>fs.
     bnd (for_each [0..<length fs] (cv_fold lib fsplit tsplit) []) (\<lambda>y.
     ret ([0..<length fs], y)))"

text \<open>
  The analysis cell: four plotting calls, then
  \<open>print('Averaged error: {}'.format(sum(y)/float(len(y))))\<close>. The quotient is
  evaluated before \<open>print\<close> is called and raises ZeroDivisionError for an empty \<open>y\<close>.
  The program returns the number it printed.
\<close>

definition averaged_error :: "real list \<Rightarrow> (real, 'r) prog" where
  "averaged_error y =
     (if length y = 0 then raise ZeroDivisionError else ret (sum_list y / real (length y)))"

definition analysis ::
  "('c, 'r, 'g, 'p) library \<Rightarrow> nat list \<times> real list \<Rightarrow> (real, 'r) prog" where
  "analysis lib xy =
     bnd (perform_all lib
            [Call None ''plt.figure'' [PInt 0] [],
             Call None ''plt.plot'' [PExpr ''x'', PExpr ''y'', PStr ''-''] [],
             Call None ''plt.xlabel'' [PStr ''Data Subset''] [],
             Call None ''plt.ylabel'' [PStr ''Average Error''] []]) (\<lambda>_.
     bnd (averaged_error (snd xy)) (\<lambda>avg.
     bnd (perform lib (Call None ''print'' [PExpr ''Averaged error: {}.format(sum(y)/float(len(y)))''] [])) (\<lambda>_.
     ret avg)))"

section \<open>The cross-validation notebook: the other cells\<close>

definition imports_cell :: "stmt list" where
  "imports_cell =
     [Magic ''matplotlib inline'',
      Import ''os'' [],
      Import ''numpy'' [],
      Import ''matplotlib.pyplot'' [],
      Import ''ase.ga.data'' [''DataConnection''],
      Import ''catlearn.featurize.setup'' [''FeatureGenerator''],
      Import ''catlearn.cross_validation'' [''k_fold''],
      Import ''catlearn.cross_validation.k_fold_cv'' [''write_split'', ''read_split''],
      Import ''catlearn.regression'' [''RidgeRegression'', ''GaussianProcess''],
      Import ''catlearn.regression.cost_function'' [''get_error'']]"

text \<open>
  Data setup: the candidates are read from the database, the feature matrix is generated,
  and the targets are collected by
  \<^verbatim>\<open>
    targets = []
    for a in all_cand:
        targets.append(a.info['key_value_pairs']['raw_score'])
  \<close>
  The cell leaves \<open>features\<close> and \<open>targets\<close> to the later cells.
\<close>

definition data_setup :: "('c, 'r, 'g, 'p) library \<Rightarrow> ('r list \<times> 'r list, 'r) prog" where
  "data_setup lib =
     bnd (perform lib (Call (Some ''gadb'') ''DataConnection'' [PPath ''../../data/gadb.db''] [])) (\<lambda>_.
     bnd (ask (Method (Some ''all_cand'') ''gadb'' ''get_all_relaxed_candidates'' []
                 [(''use_extinct'', PBool False)])
            (get_all_relaxed_candidates lib)) (\<lambda>all_cand.
     bnd (perform_all lib
            [Call None ''print'' [PExpr ''Loaded {} atoms objects.format(len(all_cand))''] [],
             Call (Some ''fgen'') ''FeatureGenerator'' [] []]) (\<lambda>_.
     bnd (ask (Method (Some ''features'') ''fgen'' ''return_vec''
                 [PExpr ''all_cand'', PExpr ''[fgen.eigenspectrum_vec]''] [])
            (return_vec lib all_cand)) (\<lambda>features.
     bnd (perform_all lib
            [Call None ''np.shape'' [PExpr ''features''] [],
             Call None ''print'' [PExpr ''Generated {} feature matrix.format(np.shape(features))''] []]) (\<lambda>_.
     bnd (for_each all_cand
            (\<lambda>a targets. bnd (ask (Compute ''a.info[key_value_pairs][raw_score]'') (raw_score lib a))
                            (\<lambda>t. ret (targets @ [t]))) []) (\<lambda>targets.
     bnd (perform_all lib
            [Call None ''np.shape'' [PExpr ''targets''] [],
             Call None ''print'' [PExpr ''Generated {} target vector.format(np.shape(targets))''] []]) (\<lambda>_.
     ret (features, targets))))))))"

text \<open>
  Subset generation: \<open>fsplit, tsplit = k_fold(features=features, targets=targets, nsplit=5)\<close>;
  the two lists returned are new list objects. Then the shape of every subset is printed.
\<close>

definition print_shapes :: "('c, 'r, 'g, 'p) library \<Rightarrow> string \<Rightarrow> nat \<Rightarrow> (unit, 'r) prog" where
  "print_shapes lib v a =
     bnd (list_get a) (\<lambda>xs.
     for_each [0..<length xs]
       (\<lambda>index _. perform_all lib
          [Call None ''np.shape'' [PExpr (v @ ''[index]'')] [],
           Call None ''print'' [PExpr (''    subset {0} has shape {1}.format(index, np.shape('' @ v @ ''[index]))'')] []])
       ())"

definition subset_generation ::
  "('c, 'r, 'g, 'p) library \<Rightarrow> 'r list \<Rightarrow> 'r list \<Rightarrow> (nat \<times> nat, 'r) prog" where
  "subset_generation lib features targets =
     bnd (ask (Call (Some ''fsplit, tsplit'') ''k_fold'' []
                 [(''features'', PExpr ''features''), (''targets'', PExpr ''targets''), (''nsplit'', PInt 5)])
            (k_fold lib features targets 5)) (\<lambda>(fs, ts).
     bnd (new_list fs) (\<lambda>fsplit.
     bnd (new_list ts) (\<lambda>tsplit.
     bnd (perform lib (Call None ''print''
            [PExpr ''k_fold has generated {} subsets of features..format(len(fsplit))''] [])) (\<lambda>_.
     bnd (print_shapes lib ''fsplit'' fsplit) (\<lambda>_.
     bnd (perform lib (Call None ''print''
            [PExpr ''k_fold has generated {} subsets of targets..format(len(tsplit))''] [])) (\<lambda>_.
     bnd (print_shapes lib ''tsplit'' tsplit) (\<lambda>_.
     ret (fsplit, tsplit))))))))"

text \<open>The splits are written to a JSON file and read back; what is read is not used again.\<close>

definition save_and_read :: "stmt list" where
  "save_and_read =
     [Call None ''write_split'' []
        [(''features'', PExpr ''fsplit''), (''targets'', PExpr ''tsplit''),
         (''fname'', PPath ''kfoldSave''), (''fformat'', PStr ''json'')],
      Call (Some ''fread, tread'') ''read_split'' []
        [(''fname'', PPath ''kfoldSave''), (''fformat'', PStr ''json'')]]"

definition cleanup :: "stmt list" where
  "cleanup =
     [Call None ''os.remove'' [PPath ''kfoldSave.json''] [],
      Call None ''plt.show'' [] []]"

text \<open>The notebook, cell after cell. It returns the averaged error it printed.\<close>

definition kfold_notebook :: "('c, 'r, 'g, 'p) library \<Rightarrow> (real, 'r) prog" where
  "kfold_notebook lib =
     bnd (perform_all lib imports_cell) (\<lambda>_.
     bnd (data_setup lib) (\<lambda>(features, targets).
     bnd (subset_generation lib features targets) (\<lambda>(fsplit, tsplit).
     bnd (perform_all lib save_and_read) (\<lambda>_.
     bnd (cv_loop lib fsplit tsplit) (\<lambda>xy.
     bnd (analysis lib xy) (\<lambda>avg.
     bnd (perform_all lib cleanup) (\<lambda>_.
     ret avg)))))))"

section \<open>The ML-NEB notebook\<close>

text \<open>
  Every code cell of the notebook is straight-line: a cell is the list of its statements.
  \<open>mask = [atom.tag > 1 for atom in slab]\<close> computes on attributes of library objects.
  \<open>slab[-1].x += slab.get_cell()[0, 0] / 2\<close> reads the attribute, then calls
  \<open>slab.get_cell()\<close>, then stores the sum.
\<close>

definition calculator_cell :: "stmt list" where
  "calculator_cell =
     [Import ''ase.calculators.emt'' [''EMT''],
      Call (Some ''ase_calculator'') ''EMT'' [] []]"

definition slab_cell :: "stmt list" where
  "slab_cell =
     [Import ''ase.build'' [''fcc100'', ''add_adsorbate''],
      Import ''ase.constraints'' [''FixAtoms''],
      Call (Some ''slab'') ''fcc100'' [PStr ''Al''] [(''size'', PTuple [PInt 2, PInt 2, PInt 3])],
      Call None ''add_adsorbate'' [PExpr ''slab'', PStr ''Au'', PDec 17 1, PStr ''hollow''] [],
      Method None ''slab'' ''center'' [] [(''axis'', PInt 2), (''vacuum'', PDec 40 1)],
      Compute ''mask'',
      Call None ''FixAtoms'' [] [(''mask'', PExpr ''mask'')],
      Method None ''slab'' ''set_constraint'' [PExpr ''FixAtoms(mask=mask)''] []]"

definition set_calculator_cell :: "stmt list" where
  "set_calculator_cell =
     [Method None ''slab'' ''set_calculator'' [PExpr ''ase_calculator''] []]"

definition relax_cell :: "stmt list" where
  "relax_cell =
     [Import ''ase.optimize'' [''BFGS''],
      Call (Some ''qn'') ''BFGS'' [PExpr ''slab''] [(''trajectory'', PPath ''initial.traj'')],
      Method None ''qn'' ''run'' [] [(''fmax'', PDec 1 2)],
      Compute ''slab[-1].x'',
      Method None ''slab'' ''get_cell'' [] [],
      Compute ''slab[-1].x = slab[-1].x + slab.get_cell()[0, 0] / 2'',
      Call (Some ''qn'') ''BFGS'' [PExpr ''slab''] [(''trajectory'', PPath ''final.traj'')],
      Method None ''qn'' ''run'' [] [(''fmax'', PDec 1 2)]]"

definition run_cell :: "stmt list" where
  "run_cell =
     [Import ''catlearn.optimize.mlneb'' [''MLNEB''],
      Call (Some ''neb_catlearn'') ''MLNEB'' []
        [(''start'', PPath ''initial.traj''), (''end'', PPath ''final.traj''),
         (''ase_calc'', PExpr ''ase_calculator''), (''n_images'', PInt 7),
         (''interpolation'', PStr ''idpp''), (''restart'', PBool False)],
      Method None ''neb_catlearn'' ''run'' []
        [(''fmax'', PDec 5 2), (''trajectory'', PPath ''ML-NEB.traj'')]]"

definition plot_cell :: "stmt list" where
  "plot_cell =
     [Import ''catlearn.optimize.tools'' [''plotneb''],
      Call None ''plotneb'' [] [(''trajectory'', PPath ''ML-NEB.traj''), (''view_path'', PBool True)]]"

definition unconverged_cell :: "stmt list" where
  "unconverged_cell =
     [Call (Some ''neb_catlearn'') ''MLNEB'' []
        [(''start'', PPath ''initial.traj''), (''end'', PPath ''final.traj''),
         (''ase_calc'', PExpr ''ase_calculator''), (''n_images'', PInt 7),
         (''interpolation'', PStr ''idpp''), (''restart'', PBool False)],
      Method None ''neb_catlearn'' ''run'' []
        [(''fmax'', PDec 5 2), (''trajectory'', PPath ''ML-NEB.traj''), (''steps'', PInt 5)]]"

definition restart_cell :: "stmt list" where
  "restart_cell =
     [Call (Some ''neb_catlearn'') ''MLNEB'' []
        [(''start'', PPath ''initial.traj''), (''end'', PPath ''final.traj''),
         (''ase_calc'', PExpr ''ase_calculator''), (''n_images'', PInt 7),
         (''interpolation'', PStr ''idpp''), (''restart'', PBool True)],
      Method None ''neb_catlearn'' ''run'' []
        [(''fmax'', PDec 5 2), (''trajectory'', PPath ''ML-NEB.traj'')]]"

definition more_images_cell :: "stmt list" where
  "more_images_cell =
     [Call (Some ''neb_catlearn'') ''MLNEB'' []
        [(''start'', PPath ''initial.traj''), (''end'', PPath ''final.traj''),
         (''ase_calc'', PExpr ''ase_calculator''), (''n_images'', PInt 21),
         (''interpolation'', PStr ''idpp''), (''restart'', PBool True)],
      Method None ''neb_catlearn'' ''run'' []
        [(''fmax'', PDec 2 2), (''unc_convergence'', PDec 25 3), (''trajectory'', PPath ''ML-NEB.traj'')]]"

definition replot_cell :: "stmt list" where
  "replot_cell =
     [Call None ''plotneb'' [] [(''trajectory'', PPath ''ML-NEB.traj''), (''view_path'', PBool True)]]"

definition mlneb_script :: "stmt list" where
  "mlneb_script =
     calculator_cell @ slab_cell @ set_calculator_cell @ relax_cell @ run_cell @ plot_cell
     @ unconverged_cell @ restart_cell @ more_images_cell @ replot_cell"

definition mlneb_notebook :: "('c, 'r, 'g, 'p) library \<Rightarrow> (unit, 'r) prog" where
  "mlneb_notebook lib = perform_all lib mlneb_script"

section \<open>Outcomes\<close>

fun returned :: "(exc \<times> 'w) + ('a \<times> 'w) \<Rightarrow> 'a option" where
  "returned (Inl _) = None"
| "returned (Inr (a, _)) = Some a"

fun raised :: "(exc \<times> 'w) + ('a \<times> 'w) \<Rightarrow> exc option" where
  "raised (Inl (e, _)) = Some e"
| "raised (Inr _) = None"

text \<open>The world a program ends in, whether it returns or raises.\<close>

fun final :: "(exc \<times> 'w) + ('a \<times> 'w) \<Rightarrow> 'w" where
  "final (Inl (_, w)) = w"
| "final (Inr (_, w)) = w"

text \<open>
  \<open>triple P m Q X\<close>: started in a world with \<open>P\<close>, the program \<open>m\<close> returns \<open>a\<close> in a
  world with \<open>Q a\<close>, or raises in a world with \<open>X\<close>.
\<close>

definition triple ::
  "('r world \<Rightarrow> bool) \<Rightarrow> ('a, 'r) prog \<Rightarrow> ('a \<Rightarrow> 'r world \<Rightarrow> bool) \<Rightarrow> ('r world \<Rightarrow> bool) \<Rightarrow> bool" where
  "triple P m Q X \<longleftrightarrow>
     (\<forall>w. P w \<longrightarrow> (case m w of Inl (e, w') \<Rightarrow> X w' | Inr (a, w') \<Rightarrow> Q a w'))"

text \<open>The list object at \<open>a\<close> exists and holds \<open>v\<close>.\<close>

definition kept :: "nat \<Rightarrow> 'r list list option \<Rightarrow> 'r world \<Rightarrow> bool" where
  "kept a v w \<longleftrightarrow> heap w a = v \<and> a < fresh w"

section \<open>What the claims say about the folds\<close>

text \<open>All subsets but the one at \<open>i\<close>, in their original order.\<close>

definition remaining :: "nat \<Rightarrow> 'a list \<Rightarrow> 'a list" where
  "remaining i xs = take i xs @ drop (Suc i) xs"

text \<open>
  The sets of fold \<open>i\<close> as the claim describes them: training features, training targets,
  test features, test targets.
\<close>

definition fold_sets ::
  "'r list list \<Rightarrow> 'r list list \<Rightarrow> nat \<Rightarrow> 'r list \<times> 'r list \<times> 'r list \<times> 'r list" where
  "fold_sets fs ts i = (concat (remaining i fs), concat (remaining i ts), fs ! i, ts ! i)"

text \<open>
  The error of a fold when the library's functions return \<open>G\<close>, \<open>P\<close> and \<open>E\<close>: the model is
  trained on the training sets, predicts on the test features, and the prediction is
  compared with the test targets.
\<close>

definition fold_error ::
  "('r list \<Rightarrow> 'r list \<Rightarrow> 'g) \<Rightarrow> ('g \<Rightarrow> 'r list \<Rightarrow> 'p) \<Rightarrow> ('p \<Rightarrow> 'r list \<Rightarrow> real)
   \<Rightarrow> 'r list \<times> 'r list \<times> 'r list \<times> 'r list \<Rightarrow> real" where
  "fold_error G P E sets =
     (case sets of (train_features, train_targets, test_features, test_targets) \<Rightarrow>
        E (P (G train_features train_targets) test_features) test_targets)"


section \<open>A library and worlds to run the notebooks on\<close>

text \<open>
  Five candidates; each subset holds one entry; the trained model is the training data,
  the prediction is the model with the test features, and the error is the sum of the
  test targets. No call raises.
\<close>

definition demo_lib ::
  "(nat, nat, nat list \<times> nat list, (nat list \<times> nat list) \<times> nat list) library" where
  "demo_lib =
     \<lparr>raises = (\<lambda>_ _. None),
      get_all_relaxed_candidates = Inr [1, 2, 3, 4, 5],
      return_vec = (\<lambda>cs. Inr cs),
      raw_score = (\<lambda>c. Inr (10 * c)),
      k_fold = (\<lambda>fe ta n. Inr (map (\<lambda>x. [x]) fe, map (\<lambda>x. [x]) ta)),
      GaussianProcess = (\<lambda>a b. Inr (a, b)),
      predict = (\<lambda>g t. Inr (g, t)),
      get_error = (\<lambda>p t. Inr (real (sum_list t)))\<rparr>"




definition empty_world :: "nat world" where
  "empty_world = \<lparr>trace = [], heap = Map.empty, fresh = 0\<rparr>"

definition demo_world :: "nat world" where
  "demo_world =
     \<lparr>trace = [],
      heap = [0 \<mapsto> [[1], [2], [3], [4], [5]], 1 \<mapsto> [[10], [20], [30], [40], [50]]],
      fresh = 2\<rparr>"

section \<open>Reading a trace\<close>

fun target_of :: "stmt \<Rightarrow> string option" where
  "target_of (Call t _ _ _) = t"
| "target_of (Method t _ _ _ _) = t"
| "target_of _ = None"

fun args_of :: "stmt \<Rightarrow> pyval list" where
  "args_of (Call _ _ as _) = as"
| "args_of (Method _ _ _ as _) = as"
| "args_of _ = []"

fun kwargs_of :: "stmt \<Rightarrow> (string \<times> pyval) list" where
  "kwargs_of (Call _ _ _ kw) = kw"
| "kwargs_of (Method _ _ _ _ kw) = kw"
| "kwargs_of _ = []"

definition kw_names :: "stmt \<Rightarrow> string list" where
  "kw_names s = map fst (kwargs_of s)"

fun is_call :: "string \<Rightarrow> stmt \<Rightarrow> bool" where
  "is_call f (Call _ g _ _) = (f = g)"
| "is_call f _ = False"

fun is_method :: "string \<Rightarrow> stmt \<Rightarrow> bool" where
  "is_method m (Method _ _ n _ _) = (m = n)"
| "is_method m _ = False"

text \<open>The files a statement names.\<close>

fun paths_val :: "pyval \<Rightarrow> string list" where
  "paths_val (PPath p) = [p]"
| "paths_val (PTuple vs) = concat (map paths_val vs)"
| "paths_val _ = []"

definition paths_of :: "stmt \<Rightarrow> string list" where
  "paths_of s = concat (map paths_val (args_of s @ map snd (kwargs_of s)))"

text \<open>
  The object a variable holds after the statements \<open>seen\<close>: the last statement that
  assigned the variable. \<open>is_method_on c m seen s\<close>: the statement \<open>s\<close>, executed after
  \<open>seen\<close>, calls the method \<open>m\<close> of an object made by calling the class \<open>c\<close>.
\<close>

definition bound_to :: "stmt list \<Rightarrow> string \<Rightarrow> stmt option" where
  "bound_to seen v = find (\<lambda>s. target_of s = Some v) (rev seen)"

fun is_method_on :: "string \<Rightarrow> string \<Rightarrow> stmt list \<Rightarrow> stmt \<Rightarrow> bool" where
  "is_method_on c m seen (Method _ v n _ _) =
     (m = n \<and> (case bound_to seen v of Some s \<Rightarrow> is_call c s | None \<Rightarrow> False))"
| "is_method_on c m seen _ = False"

fun calls_on :: "string \<Rightarrow> string \<Rightarrow> stmt list \<Rightarrow> stmt list \<Rightarrow> stmt list" where
  "calls_on c m seen [] = []"
| "calls_on c m seen (s # ss) =
     (if is_method_on c m seen s then [s] else []) @ calls_on c m (seen @ [s]) ss"

text \<open>
  The statements of a script that are reached, for a library that raises as \<open>r\<close> says:
  the one that raises is the last.
\<close>

fun executed :: "(stmt list \<Rightarrow> stmt \<Rightarrow> exc option) \<Rightarrow> stmt list \<Rightarrow> stmt list \<Rightarrow> stmt list" where
  "executed r seen [] = []"
| "executed r seen (s # ss) =
     s # (case r seen s of Some e \<Rightarrow> [] | None \<Rightarrow> executed r (seen @ [s]) ss)"

text \<open>
  Whatever the library does, the program \<open>m\<close> only adds statements to the trace, and
  every statement it adds satisfies \<open>Q\<close>.
\<close>

definition grows :: "(stmt \<Rightarrow> bool) \<Rightarrow> ('a, 'r) prog \<Rightarrow> bool" where
  "grows Q m \<longleftrightarrow> (\<forall>w. \<exists>ss. trace (final (m w)) = trace w @ ss \<and> list_all Q ss)"

subsection \<open>The stages of the ML-NEB notebook\<close>

text \<open>
  The slab is built by \<open>fcc100\<close>; \<open>Relax p f\<close> is the run, to the force threshold \<open>f\<close>, of a
  BFGS optimizer that was constructed with the trajectory file \<open>p\<close>; an MLNEB object is
  constructed; the \<open>run\<close> method of an MLNEB object is called; \<open>plotneb\<close> is called.
\<close>

datatype stage = BuildSlab | Relax string pyval | NewMLNEB | RunMLNEB | Plot

definition stage_of :: "stmt list \<Rightarrow> stmt \<Rightarrow> stage option" where
  "stage_of seen s =
     (if is_call ''fcc100'' s then Some BuildSlab
      else if is_call ''MLNEB'' s then Some NewMLNEB
      else if is_call ''plotneb'' s then Some Plot
      else if is_method_on ''MLNEB'' ''run'' seen s then Some RunMLNEB
      else if is_method_on ''BFGS'' ''run'' seen s then
        (case s of
           Method _ v _ _ kw \<Rightarrow>
             (case bound_to seen v of
                Some c \<Rightarrow>
                  (case (map_of (kwargs_of c) ''trajectory'', map_of kw ''fmax'') of
                     (Some (PPath p), Some f) \<Rightarrow> Some (Relax p f)
                   | _ \<Rightarrow> None)
              | None \<Rightarrow> None)
         | _ \<Rightarrow> None)
      else None)"

fun stages :: "stmt list \<Rightarrow> stmt list \<Rightarrow> stage list" where
  "stages seen [] = []"
| "stages seen (s # ss) =
     (case stage_of seen s of Some g \<Rightarrow> [g] | None \<Rightarrow> []) @ stages (seen @ [s]) ss"

definition mlneb_stages :: "stage list" where
  "mlneb_stages =
     [BuildSlab, Relax ''initial.traj'' (PDec 1 2), Relax ''final.traj'' (PDec 1 2),
      NewMLNEB, RunMLNEB, Plot,
      NewMLNEB, RunMLNEB, NewMLNEB, RunMLNEB, NewMLNEB, RunMLNEB, Plot]"

subsection \<open>Keywords and files\<close>

definition mlneb_keywords :: "string list" where
  "mlneb_keywords = [''start'', ''end'', ''ase_calc'', ''n_images'', ''interpolation'', ''restart'']"

definition run_keywords :: "string list" where
  "run_keywords = [''fmax'', ''steps'', ''unc_convergence'', ''trajectory'']"


text \<open>
  What holds of every statement of the cross-validation notebook: it names no file but
  the database and the file of the splits, it is neither the construction of an MLNEB
  object nor a call of a \<open>run\<close> method, and it has no keyword \<open>restart\<close>.
\<close>

definition kfold_stmt :: "stmt \<Rightarrow> bool" where
  "kfold_stmt s \<longleftrightarrow>
     set (paths_of s) \<subseteq> {''../../data/gadb.db'', ''kfoldSave'', ''kfoldSave.json''}
     \<and> \<not> is_call ''MLNEB'' s \<and> \<not> is_method ''run'' s \<and> ''restart'' \<notin> set (kw_names s)"

section \<open>Rules for programs in sequence\<close>

lemma bnd_assoc: "bnd (bnd m f) g = bnd m (\<lambda>a. bnd (f a) g)"
  by (rule ext) (simp add: bnd_def split: sum.splits prod.splits)

lemma bnd_ret: "bnd (ret a) f = f a"
  by (rule ext) (simp add: bnd_def ret_def)



lemma for_each_append:
  "for_each (xs @ ys) body acc = bnd (for_each xs body acc) (for_each ys body)"
proof (induction xs arbitrary: acc)
  case Nil
  show ?case by (simp add: bnd_ret)
next
  case (Cons x xs)
  have "for_each (xs @ ys) body = (\<lambda>a. bnd (for_each xs body a) (for_each ys body))"
    by (rule ext) (rule Cons.IH)
  then show ?case by (simp add: bnd_assoc)
qed

subsection \<open>Statements one after the other\<close>

lemma perform_all_never:
  "raises lib = (\<lambda>_ _. None) \<Longrightarrow> perform_all lib ss w = Inr ((), w\<lparr>trace := trace w @ ss\<rparr>)"
  by (induction ss arbitrary: w) (simp_all add: ret_def bnd_def perform_def ask_def)

lemma perform_all_trace:
  "trace (final (perform_all lib ss w)) = trace w @ executed (raises lib) (trace w) ss"
proof (induction ss arbitrary: w)
  case Nil
  show ?case by (simp add: ret_def)
next
  case (Cons s ss)
  show ?case
  proof (cases "raises lib (trace w) s")
    case None
    then have "perform_all lib (s # ss) w = perform_all lib ss (w\<lparr>trace := trace w @ [s]\<rparr>)"
      by (simp add: bnd_def perform_def ask_def)
    then show ?thesis using None Cons.IH [of "w\<lparr>trace := trace w @ [s]\<rparr>"] by simp
  next
    case (Some e)
    then show ?thesis by (simp add: bnd_def perform_def ask_def)
  qed
qed

lemma perform_all_returns:
  "raised (perform_all lib ss w) = None \<Longrightarrow> executed (raises lib) (trace w) ss = ss"
proof (induction ss arbitrary: w)
  case Nil
  show ?case by simp
next
  case (Cons s ss)
  show ?case
  proof (cases "raises lib (trace w) s")
    case None
    then have eq: "perform_all lib (s # ss) w = perform_all lib ss (w\<lparr>trace := trace w @ [s]\<rparr>)"
      by (simp add: bnd_def perform_def ask_def)
    show ?thesis using None Cons.IH [of "w\<lparr>trace := trace w @ [s]\<rparr>"] Cons.prems eq by simp
  next
    case (Some e)
    then show ?thesis using Cons.prems by (simp add: bnd_def perform_def ask_def)
  qed
qed


lemma prefix_executed: "prefix (executed r seen ss) ss"
  by (induction ss arbitrary: seen) (auto split: option.splits)

subsection \<open>Triples\<close>

lemma triple_bnd:
  assumes "triple P m Q X" and "\<And>a. triple (Q a) (f a) R X"
  shows "triple P (bnd m f) R X"
  using assms unfolding triple_def bnd_def
  by (fastforce split: sum.splits prod.splits)

lemma triple_ret: "triple (Q a) (ret a) Q X"
  by (simp add: triple_def ret_def)

lemma triple_assume:
  assumes "C \<Longrightarrow> triple P m Q X"
  shows "triple (\<lambda>w. P w \<and> C) m Q X"
  using assms unfolding triple_def by blast

lemma triple_for_each:
  assumes "\<And>i acc. triple I (body i acc) (\<lambda>_. I) I"
  shows "triple I (for_each xs body acc) (\<lambda>_. I) I"
proof (induction xs arbitrary: acc)
  case Nil
  show ?case by (simp add: triple_def ret_def)
next
  case (Cons i xs)
  show ?case by (simp, rule triple_bnd [OF assms]) (rule Cons.IH)
qed

section \<open>The loop does not touch the lists it copies\<close>

lemma kept_ask: "triple (kept a v) (ask s r) (\<lambda>_. kept a v) (kept a v)"
  by (auto simp: triple_def ask_def kept_def Let_def split: sum.splits)

lemma kept_list_get: "triple (kept a v) (list_get b) (\<lambda>_. kept a v) (kept a v)"
  by (auto simp: triple_def list_get_def kept_def split: option.splits)

lemma kept_new_list:
  "triple (kept a v) (new_list xs) (\<lambda>c w. kept a v w \<and> a < c) (kept a v)"
  by (auto simp: triple_def new_list_def kept_def)

lemma kept_list_copy:
  "triple (kept a v) (list_copy b) (\<lambda>c w. kept a v w \<and> a < c) (kept a v)"
  unfolding list_copy_def
  by (rule triple_bnd [OF kept_list_get]) (rule kept_new_list)

lemma kept_list_pop:
  "a < c \<Longrightarrow> triple (kept a v) (list_pop c i) (\<lambda>_. kept a v) (kept a v)"
  by (auto simp: triple_def list_pop_def kept_def split: option.splits)

lemma kept_np_concatenate:
  "triple (kept a v) (np_concatenate n xs) (\<lambda>_. kept a v) (kept a v)"
  unfolding np_concatenate_def by (rule kept_ask)

lemma kept_gp_predict:
  "triple (kept a v) (gp_predict lib trf trt tef tet) (\<lambda>_. kept a v) (kept a v)"
  unfolding gp_predict_def
  by (rule triple_bnd [OF kept_ask] triple_ret)+

lemma kept_cv_fold:
  "triple (kept a v) (cv_fold lib fsplit tsplit index y) (\<lambda>_. kept a v) (kept a v)"
  unfolding cv_fold_def
  apply (rule triple_bnd [OF kept_list_copy])
  apply (rule triple_assume)
  apply (rule triple_bnd [OF kept_list_copy])
  apply (rule triple_assume)
  apply (rule triple_bnd [OF kept_list_pop], assumption)
  apply (rule triple_bnd [OF kept_list_pop], assumption)
  apply (rule triple_bnd [OF triple_bnd [OF kept_list_get kept_np_concatenate]])
  apply (rule triple_bnd [OF triple_bnd [OF kept_list_get kept_np_concatenate]])
  apply (rule triple_bnd [OF kept_gp_predict])
  apply (rule triple_ret)
  done

lemma kept_cv_loop:
  "triple (kept a v) (cv_loop lib fsplit tsplit) (\<lambda>_. kept a v) (kept a v)"
  unfolding cv_loop_def
  by (rule triple_bnd [OF kept_list_get] triple_bnd [OF triple_for_each] kept_cv_fold triple_ret)+

section \<open>The statements a program adds to the trace\<close>

lemma growsI:
  assumes "\<And>w. \<exists>ss. trace (final (m w)) = trace w @ ss \<and> list_all Q ss"
  shows "grows Q m"
  using assms by (simp add: grows_def)

lemma growsD:
  assumes "grows Q m"
  obtains ss where "trace (final (m w)) = trace w @ ss" and "list_all Q ss"
  using assms unfolding grows_def by blast

lemma grows_ret: "grows Q (ret a)"
  by (simp add: grows_def ret_def)

lemma grows_raise: "grows Q (raise e)"
  by (simp add: grows_def raise_def)

lemma grows_bnd:
  assumes "grows Q m" and "\<And>a. grows Q (f a)"
  shows "grows Q (bnd m f)"
proof (rule growsI)
  fix w
  obtain ss where m: "trace (final (m w)) = trace w @ ss" "list_all Q ss"
    using assms(1) by (rule growsD)
  show "\<exists>ss. trace (final (bnd m f w)) = trace w @ ss \<and> list_all Q ss"
  proof (cases "m w")
    case (Inl r)
    then show ?thesis using m by (cases r) (auto simp: bnd_def)
  next
    case (Inr r)
    obtain a w' where r: "r = (a, w')" by (cases r)
    obtain ts where f: "trace (final (f a w')) = trace w' @ ts" "list_all Q ts"
      using assms(2) by (rule growsD)
    have "trace (final (bnd m f w)) = trace w @ (ss @ ts)"
      using Inr r m f by (simp add: bnd_def)
    moreover have "list_all Q (ss @ ts)" using m f by simp
    ultimately show ?thesis by blast
  qed
qed

lemma grows_ask: "Q s \<Longrightarrow> grows Q (ask s r)"
  by (auto simp: grows_def ask_def Let_def split: sum.splits)

lemma grows_perform: "Q s \<Longrightarrow> grows Q (perform lib s)"
  by (auto simp: grows_def perform_def ask_def Let_def split: sum.splits option.splits)

lemma grows_perform_all: "list_all Q ss \<Longrightarrow> grows Q (perform_all lib ss)"
  by (induction ss) (auto intro: grows_ret grows_bnd grows_perform)

lemma grows_new_list: "grows Q (new_list xs)"
  by (simp add: grows_def new_list_def)

lemma grows_list_get: "grows Q (list_get a)"
  by (simp add: grows_def list_get_def split: option.splits)

lemma grows_list_copy: "grows Q (list_copy a)"
  unfolding list_copy_def by (intro grows_bnd grows_list_get grows_new_list)

lemma grows_list_pop: "grows Q (list_pop a i)"
  by (simp add: grows_def list_pop_def split: option.splits)

lemma grows_for_each:
  assumes "\<And>i acc. grows Q (body i acc)"
  shows "grows Q (for_each xs body acc)"
  by (induction xs arbitrary: acc) (auto intro: grows_ret grows_bnd assms)

lemmas kfold_stmt_simps = kfold_stmt_def paths_of_def kw_names_def

lemma grows_np_concatenate: "grows kfold_stmt (np_concatenate v xs)"
  unfolding np_concatenate_def by (rule grows_ask) (simp add: kfold_stmt_simps)

lemma grows_gp_predict: "grows kfold_stmt (gp_predict lib a b c d)"
  unfolding gp_predict_def
  by (intro grows_bnd grows_ask grows_ret) (simp_all add: kfold_stmt_simps)

lemma grows_cv_fold: "grows kfold_stmt (cv_fold lib fsplit tsplit index y)"
  unfolding cv_fold_def
  by (intro grows_bnd grows_list_copy grows_list_pop grows_list_get grows_np_concatenate
      grows_gp_predict grows_ret)

lemma grows_cv_loop: "grows kfold_stmt (cv_loop lib fsplit tsplit)"
  unfolding cv_loop_def
  by (intro grows_bnd grows_list_get grows_for_each grows_cv_fold grows_ret)

lemma grows_averaged_error: "grows Q (averaged_error y)"
  by (simp add: averaged_error_def grows_ret grows_raise)

lemma grows_analysis: "grows kfold_stmt (analysis lib xy)"
  unfolding analysis_def
  by (intro grows_bnd grows_perform_all grows_perform grows_averaged_error grows_ret)
     (simp_all add: kfold_stmt_simps)

lemma grows_data_setup: "grows kfold_stmt (data_setup lib)"
  unfolding data_setup_def
  by (intro grows_bnd grows_perform_all grows_perform grows_ask grows_for_each grows_ret)
     (simp_all add: kfold_stmt_simps)

lemma grows_print_shapes: "grows kfold_stmt (print_shapes lib v a)"
  unfolding print_shapes_def
  by (intro grows_bnd grows_list_get grows_for_each grows_perform_all)
     (simp_all add: kfold_stmt_simps)

lemma grows_subset_generation: "grows kfold_stmt (subset_generation lib features targets)"
  unfolding subset_generation_def
  apply (rule grows_bnd)
   apply (rule grows_ask, simp add: kfold_stmt_simps)
  apply (simp only: split_paired_all prod.case)
  apply (intro grows_bnd grows_new_list grows_perform grows_print_shapes grows_ret)
   apply (simp_all add: kfold_stmt_simps)
  done

lemma grows_kfold_notebook: "grows kfold_stmt (kfold_notebook lib)"
  unfolding kfold_notebook_def
  apply (rule grows_bnd)
   apply (rule grows_perform_all, simp add: imports_cell_def kfold_stmt_simps)
  apply (rule grows_bnd [OF grows_data_setup])
  apply (simp only: split_paired_all prod.case)
  apply (rule grows_bnd [OF grows_subset_generation])
  apply (simp only: split_paired_all prod.case)
  apply (rule grows_bnd)
   apply (rule grows_perform_all, simp add: save_and_read_def kfold_stmt_simps)
  apply (rule grows_bnd [OF grows_cv_loop])
  apply (rule grows_bnd [OF grows_analysis])
  apply (rule grows_bnd)
   apply (rule grows_perform_all, simp add: cleanup_def kfold_stmt_simps)
  apply (rule grows_ret)
  done



lemma kfold_trace:
  assumes "trace w = []"
  shows "list_all kfold_stmt (trace (final (kfold_notebook lib w)))"
proof -
  obtain ss where "trace (final (kfold_notebook lib w)) = trace w @ ss" and "list_all kfold_stmt ss"
    using grows_kfold_notebook by (rule growsD)
  then show ?thesis using assms by simp
qed

section \<open>The folds of the loop\<close>

lemma length_remaining: "i < length xs \<Longrightarrow> length (remaining i xs) = length xs - 1"
  by (simp add: remaining_def)

lemma remaining_nonempty: "i < length xs \<Longrightarrow> 2 \<le> length xs \<Longrightarrow> remaining i xs \<noteq> []"
  using length_remaining [of i xs] by (cases "remaining i xs") auto

lemma length_concat_remaining:
  assumes "i < length xs"
  shows "length (concat (remaining i xs)) = length (concat xs) - length (xs ! i)"
proof -
  have "xs = take i xs @ xs ! i # drop (Suc i) xs"
    using assms by (rule id_take_nth_drop)
  then have "concat xs = concat (take i xs) @ xs ! i @ concat (drop (Suc i) xs)"
    by (metis concat.simps(2) concat_append)
  then show ?thesis by (simp add: remaining_def)
qed

text \<open>One pass: the error is appended, and the two copies stay in the store.\<close>

lemma cv_fold_store:
  assumes "heap w fsplit = Some fs" "heap w tsplit = Some ts"
    and "fsplit < fresh w" "tsplit < fresh w"
    and "index < length fs" "length ts = length fs" "2 \<le> length fs"
    and "GaussianProcess lib (concat (remaining index fs)) (concat (remaining index ts)) = Inr g"
    and "predict lib g (fs ! index) = Inr p"
    and "get_error lib p (ts ! index) = Inr r"
  shows "\<exists>w'. cv_fold lib fsplit tsplit index y w = Inr (y @ [r], w')
            \<and> heap w' = (heap w)(fresh w \<mapsto> remaining index fs, Suc (fresh w) \<mapsto> remaining index ts)
            \<and> fresh w' = Suc (Suc (fresh w))"
proof -
  have nf: "take index fs @ drop (Suc index) fs \<noteq> []"
    using remaining_nonempty [of index fs] assms by (simp add: remaining_def)
  have nt: "take index ts @ drop (Suc index) ts \<noteq> []"
    using remaining_nonempty [of index ts] assms by (simp add: remaining_def)
  show ?thesis
    using assms nf nt
    by (simp add: cv_fold_def bnd_def list_copy_def list_get_def new_list_def list_pop_def
        np_concatenate_def ask_def gp_predict_def ret_def remaining_def Let_def)
qed


text \<open>
  The first \<open>n\<close> passes, when the library returns the model \<open>g i\<close>, the prediction \<open>p i\<close>
  and the error \<open>r i\<close> in pass \<open>i\<close>.
\<close>

lemma for_each_store:
  assumes "heap w fsplit = Some fs" "heap w tsplit = Some ts"
    and "fsplit < fresh w" "tsplit < fresh w"
    and "length ts = length fs" "2 \<le> length fs"
    and "\<forall>i<m. GaussianProcess lib (concat (remaining i fs)) (concat (remaining i ts)) = Inr (g i)
             \<and> predict lib (g i) (fs ! i) = Inr (p i) \<and> get_error lib (p i) (ts ! i) = Inr (r i)"
    and "m \<le> length fs"
  shows "n \<le> m \<Longrightarrow>
         \<exists>w'. for_each [0..<n] (cv_fold lib fsplit tsplit) [] w = Inr (map r [0..<n], w')
            \<and> heap w' fsplit = Some fs \<and> heap w' tsplit = Some ts
            \<and> fresh w' = fresh w + 2 * n
            \<and> (\<forall>i<n. heap w' (fresh w + 2 * i) = Some (remaining i fs)
                    \<and> heap w' (fresh w + 2 * i + 1) = Some (remaining i ts))"
proof (induction n)
  case 0
  then show ?case using assms(1,2) by (simp add: ret_def)
next
  case (Suc n)
  then obtain w1 where run: "for_each [0..<n] (cv_fold lib fsplit tsplit) [] w = Inr (map r [0..<n], w1)"
    and inv: "heap w1 fsplit = Some fs" "heap w1 tsplit = Some ts"
    and fr: "fresh w1 = fresh w + 2 * n"
    and old: "\<forall>i<n. heap w1 (fresh w + 2 * i) = Some (remaining i fs)
                    \<and> heap w1 (fresh w + 2 * i + 1) = Some (remaining i ts)"
    by auto
  have n: "n < length fs" "n < m" using Suc.prems assms(8) by simp_all
  have lt: "fsplit < fresh w1" "tsplit < fresh w1" using fr assms(3,4) by simp_all
  have lib: "GaussianProcess lib (concat (remaining n fs)) (concat (remaining n ts)) = Inr (g n)"
    "predict lib (g n) (fs ! n) = Inr (p n)" "get_error lib (p n) (ts ! n) = Inr (r n)"
    using assms(7) n(2) by simp_all
  obtain w2 where step: "cv_fold lib fsplit tsplit n (map r [0..<n]) w1 = Inr (map r [0..<n] @ [r n], w2)"
    and h2: "heap w2 = (heap w1)(fresh w1 \<mapsto> remaining n fs, Suc (fresh w1) \<mapsto> remaining n ts)"
    and f2: "fresh w2 = Suc (Suc (fresh w1))"
    using cv_fold_store [OF inv lt n(1) assms(5,6) lib, of "map r [0..<n]"] by blast
  have "for_each ([0..<n] @ [n]) (cv_fold lib fsplit tsplit) [] w = Inr (map r [0..<n] @ [r n], w2)"
    using run step by (simp only: for_each_append) (simp add: bnd_def ret_def)
  then have a: "for_each [0..<Suc n] (cv_fold lib fsplit tsplit) [] w = Inr (map r [0..<Suc n], w2)"
    by simp
  have b: "heap w2 fsplit = Some fs" "heap w2 tsplit = Some ts"
    using h2 inv lt by auto
  have c: "fresh w2 = fresh w + 2 * Suc n" using f2 fr by simp
  have d: "\<forall>i<Suc n. heap w2 (fresh w + 2 * i) = Some (remaining i fs)
                    \<and> heap w2 (fresh w + 2 * i + 1) = Some (remaining i ts)"
  proof (intro allI impI)
    fix i assume "i < Suc n"
    then consider "i < n" | "i = n" by linarith
    then show "heap w2 (fresh w + 2 * i) = Some (remaining i fs)
                    \<and> heap w2 (fresh w + 2 * i + 1) = Some (remaining i ts)"
    proof cases
      case 1
      then have "fresh w + 2 * i \<noteq> fresh w1" "fresh w + 2 * i \<noteq> Suc (fresh w1)"
        "fresh w + 2 * i + 1 \<noteq> fresh w1" "fresh w + 2 * i + 1 \<noteq> Suc (fresh w1)"
        using fr by simp_all
      then show ?thesis using h2 old 1 by simp
    next
      case 2
      then show ?thesis using h2 fr by simp
    qed
  qed
  from a b c d show ?case by blast
qed


text \<open>The whole loop.\<close>

lemma cv_loop_store:
  assumes "heap w fsplit = Some fs" "heap w tsplit = Some ts"
    and "fsplit < fresh w" "tsplit < fresh w"
    and "length ts = length fs" "2 \<le> length fs"
    and "\<forall>i<length fs. GaussianProcess lib (concat (remaining i fs)) (concat (remaining i ts)) = Inr (g i)
             \<and> predict lib (g i) (fs ! i) = Inr (p i) \<and> get_error lib (p i) (ts ! i) = Inr (r i)"
  shows "\<exists>w'. cv_loop lib fsplit tsplit w = Inr (([0..<length fs], map r [0..<length fs]), w')
            \<and> heap w' fsplit = Some fs \<and> heap w' tsplit = Some ts
            \<and> fresh w' = fresh w + 2 * length fs
            \<and> (\<forall>i<length fs. heap w' (fresh w + 2 * i) = Some (remaining i fs)
                    \<and> heap w' (fresh w + 2 * i + 1) = Some (remaining i ts))"
proof -
  obtain w' where run: "for_each [0..<length fs] (cv_fold lib fsplit tsplit) [] w
        = Inr (map r [0..<length fs], w')"
    and rest: "heap w' fsplit = Some fs" "heap w' tsplit = Some ts"
      "fresh w' = fresh w + 2 * length fs"
      "\<forall>i<length fs. heap w' (fresh w + 2 * i) = Some (remaining i fs)
                    \<and> heap w' (fresh w + 2 * i + 1) = Some (remaining i ts)"
    using for_each_store [OF assms order_refl order_refl] by blast
  have "cv_loop lib fsplit tsplit w = Inr (([0..<length fs], map r [0..<length fs]), w')"
    using run assms(1) by (simp add: cv_loop_def bnd_def list_get_def ret_def)
  then show ?thesis using rest by blast
qed

lemma cv_loop_returns:
  assumes "heap w fsplit = Some fs" "heap w tsplit = Some ts"
    and "fsplit < fresh w" "tsplit < fresh w"
    and "length ts = length fs" "2 \<le> length fs"
    and "GaussianProcess lib = (\<lambda>a b. Inr (G a b))"
    and "predict lib = (\<lambda>g t. Inr (P g t))"
    and "get_error lib = (\<lambda>p t. Inr (E p t))"
  shows "\<exists>w'. cv_loop lib fsplit tsplit w
            = Inr (([0..<length fs], map (\<lambda>i. fold_error G P E (fold_sets fs ts i)) [0..<length fs]), w')"
proof -
  let ?g = "\<lambda>i. G (concat (remaining i fs)) (concat (remaining i ts))"
  let ?p = "\<lambda>i. P (?g i) (fs ! i)"
  let ?r = "\<lambda>i. fold_error G P E (fold_sets fs ts i)"
  have "\<forall>i<length fs. GaussianProcess lib (concat (remaining i fs)) (concat (remaining i ts)) = Inr (?g i)
             \<and> predict lib (?g i) (fs ! i) = Inr (?p i) \<and> get_error lib (?p i) (ts ! i) = Inr (?r i)"
    by (simp add: assms(7-9) fold_error_def fold_sets_def)
  from cv_loop_store [OF assms(1-6) this] show ?thesis by blast
qed






section \<open>The cross-validation notebook up to the loop\<close>


lemma for_each_perform_all:
  assumes "raises lib = (\<lambda>_ _. None)"
  shows "for_each xs (\<lambda>i _. perform_all lib ss) () w
         = Inr ((), w\<lparr>trace := trace w @ concat (replicate (length xs) ss)\<rparr>)"
proof (induction xs arbitrary: w)
  case Nil
  show ?case by (simp add: ret_def)
next
  case (Cons x xs)
  have "perform_all lib ss w = Inr ((), w\<lparr>trace := trace w @ ss\<rparr>)"
    by (rule perform_all_never [OF assms])
  then have "for_each (x # xs) (\<lambda>i _. perform_all lib ss) () w
      = for_each xs (\<lambda>i _. perform_all lib ss) () (w\<lparr>trace := trace w @ ss\<rparr>)"
    by (simp only: for_each.simps bnd_def sum.case prod.case)
  then show ?case by (simp only: Cons.IH) simp
qed


lemma print_shapes_returns:
  assumes "raises lib = (\<lambda>_ _. None)" and "heap w a = Some xs"
  shows "\<exists>w'. print_shapes lib v a w = Inr ((), w') \<and> heap w' = heap w \<and> fresh w' = fresh w"
  using assms(2)
  by (simp add: print_shapes_def bnd_def list_get_def for_each_perform_all [OF assms(1)]
      del: perform_all.simps)

lemma subset_generation_returns:
  assumes "raises lib = (\<lambda>_ _. None)"
    and "k_fold lib features targets 5 = Inr (fs, ts)"
  shows "\<exists>w'. subset_generation lib features targets w = Inr ((fresh w, Suc (fresh w)), w')
            \<and> heap w' = (heap w)(fresh w \<mapsto> fs, Suc (fresh w) \<mapsto> ts)
            \<and> fresh w' = Suc (Suc (fresh w))"
  using assms
  by (simp add: subset_generation_def bnd_def ask_def new_list_def perform_def ret_def
      print_shapes_def list_get_def for_each_perform_all [OF assms(1)] del: perform_all.simps)





text \<open>The loop, run on the two lists that subset generation leaves.\<close>

lemma subset_generation_then_loop:
  assumes "raises lib = (\<lambda>_ _. None)"
    and "k_fold lib features targets 5 = Inr (fs, ts)"
    and "length ts = length fs" "2 \<le> length fs"
    and "GaussianProcess lib = (\<lambda>a b. Inr (G a b))"
    and "predict lib = (\<lambda>g t. Inr (P g t))"
    and "get_error lib = (\<lambda>p t. Inr (E p t))"
  shows "returned (bnd (subset_generation lib features targets)
                     (\<lambda>(fsplit, tsplit). cv_loop lib fsplit tsplit) w)
         = Some ([0..<length fs], map (\<lambda>i. fold_error G P E (fold_sets fs ts i)) [0..<length fs])"
proof -
  obtain w3 where sg: "subset_generation lib features targets w = Inr ((fresh w, Suc (fresh w)), w3)"
    and h3: "heap w3 = (heap w)(fresh w \<mapsto> fs, Suc (fresh w) \<mapsto> ts)"
    and f3: "fresh w3 = Suc (Suc (fresh w))"
    using subset_generation_returns [OF assms(1,2)] by blast
  have st: "heap w3 (fresh w) = Some fs" "heap w3 (Suc (fresh w)) = Some ts"
    "fresh w < fresh w3" "Suc (fresh w) < fresh w3"
    using h3 f3 by simp_all
  obtain w4 where "cv_loop lib (fresh w) (Suc (fresh w)) w3
      = Inr (([0..<length fs], map (\<lambda>i. fold_error G P E (fold_sets fs ts i)) [0..<length fs]), w4)"
    using cv_loop_returns [OF st assms(3-7)] by blast
  then show ?thesis using sg by (simp add: bnd_def)
qed

section \<open>The trace of the ML-NEB notebook\<close>

lemmas cell_defs = calculator_cell_def slab_cell_def set_calculator_cell_def relax_cell_def
  run_cell_def plot_cell_def unconverged_cell_def restart_cell_def more_images_cell_def replot_cell_def

lemma stages_mlneb_script: "stages [] mlneb_script = mlneb_stages"
  by (simp add: mlneb_script_def cell_defs mlneb_stages_def stage_of_def bound_to_def)

lemma prefix_stages: "prefix xs ys \<Longrightarrow> prefix (stages seen xs) (stages seen ys)"
proof (induction xs arbitrary: ys seen)
  case Nil
  show ?case by simp
next
  case (Cons x xs)
  from Cons.prems obtain zs where ys: "ys = x # zs" and "prefix xs zs"
    by (cases ys) auto
  then show ?case using Cons.IH [of zs "seen @ [x]"] by (auto split: option.splits)
qed

lemma prefix_calls_on: "prefix xs ys \<Longrightarrow> prefix (calls_on c m seen xs) (calls_on c m seen ys)"
proof (induction xs arbitrary: ys seen)
  case Nil
  show ?case by simp
next
  case (Cons x xs)
  from Cons.prems obtain zs where ys: "ys = x # zs" and "prefix xs zs"
    by (cases ys) auto
  then show ?case using Cons.IH [of zs "seen @ [x]"] by auto
qed

lemma mlneb_demo_trace: "trace (final (mlneb_notebook demo_lib empty_world)) = mlneb_script"
  by (simp add: mlneb_notebook_def perform_all_never demo_lib_def empty_world_def)

lemma script_runs:
  "calls_on ''MLNEB'' ''run'' [] mlneb_script = [run_cell ! 2, unconverged_cell ! 1, restart_cell ! 1, more_images_cell ! 1]"
  by (simp add: mlneb_script_def cell_defs bound_to_def)

lemma mlneb_trace:
  "trace w = [] \<Longrightarrow> trace (final (mlneb_notebook lib w)) = executed (raises lib) [] mlneb_script"
  using perform_all_trace [of lib mlneb_script w] by (simp add: mlneb_notebook_def)

lemma mlneb_trace_prefix:
  "trace w = [] \<Longrightarrow> prefix (trace (final (mlneb_notebook lib w))) mlneb_script"
  by (simp add: mlneb_trace prefix_executed)

lemma mlneb_trace_returns:
  "trace w = [] \<Longrightarrow> raised (mlneb_notebook lib w) = None
   \<Longrightarrow> trace (final (mlneb_notebook lib w)) = mlneb_script"
proof -
  assume w: "trace w = []" and r: "raised (mlneb_notebook lib w) = None"
  have "executed (raises lib) (trace w) mlneb_script = mlneb_script"
    using r by (intro perform_all_returns) (simp add: mlneb_notebook_def)
  then show ?thesis using mlneb_trace [OF w, of lib] w by simp
qed

lemma script_run_union:
  "(\<Union>s\<in>set (calls_on ''MLNEB'' ''run'' [] mlneb_script). set (kw_names s)) = set run_keywords"
  by (auto simp add: script_runs cell_defs kw_names_def run_keywords_def)


lemma prefix_take_3:
  assumes "prefix xs ys" and "x \<in> set xs" and "x \<notin> set (take 3 ys)"
  shows "take 3 xs = take 3 ys"
proof -
  obtain zs where ys: "ys = xs @ zs" using assms(1) by (auto elim: prefixE)
  have "3 \<le> length xs"
  proof (rule ccontr)
    assume "\<not> 3 \<le> length xs"
    then have "take 3 ys = xs @ take (3 - length xs) zs" using ys by simp
    then show False using assms(2,3) by simp
  qed
  then show ?thesis using ys by simp
qed








section \<open>The cross-validation loop\<close>

text \<open>
  Claim C4. In the cross-validation loop, for every index \<open>i\<close> from \<open>0\<close> to \<open>nsplit - 1\<close> the
  test features and targets are the \<open>i\<close>-th subsets returned by \<open>k_fold\<close>, and the training
  features and targets are the concatenation, in the original order, of all the other
  subsets; so every subset is the test set exactly once, and the training set has as many
  points as all subsets together minus subset \<open>i\<close>.

  \<open>fs\<close> and \<open>ts\<close> are the subsets that \<open>k_fold\<close> returns in the subset-generation cell,
  \<open>nsplit\<close> of each (the notebook asks for 5). Whatever the library's functions \<open>G\<close>, \<open>P\<close>,
  \<open>E\<close> compute, the error that the loop records for index \<open>i\<close> is the one of the model
  trained and tested on \<open>fold_sets fs ts i\<close>; the test sets of the folds, in order, are
  the subsets themselves. With a single subset \<open>np.concatenate\<close> is given an empty list
  and raises, hence \<open>2 \<le> nsplit\<close>.
\<close>

theorem cv_loop_folds:
  assumes "raises lib = (\<lambda>_ _. None)"
    and "k_fold lib features targets 5 = Inr (fs, ts)"
    and "length fs = nsplit" "length ts = nsplit" "2 \<le> nsplit"
    and "GaussianProcess lib = (\<lambda>a b. Inr (G a b))"
    and "predict lib = (\<lambda>g t. Inr (P g t))"
    and "get_error lib = (\<lambda>p t. Inr (E p t))"
  shows "returned (bnd (subset_generation lib features targets)
                     (\<lambda>(fsplit, tsplit). cv_loop lib fsplit tsplit) w)
           = Some ([0..<nsplit], map (\<lambda>i. fold_error G P E (fold_sets fs ts i)) [0..<nsplit])
       \<and> map (\<lambda>i. fst (snd (snd (fold_sets fs ts i)))) [0..<nsplit] = fs
       \<and> map (\<lambda>i. snd (snd (snd (fold_sets fs ts i)))) [0..<nsplit] = ts
       \<and> (\<forall>i<nsplit. fst (fold_sets fs ts i) = concat (remaining i fs)
                    \<and> length (fst (fold_sets fs ts i)) = length (concat fs) - length (fs ! i))
       \<and> (\<forall>i<nsplit. fst (snd (fold_sets fs ts i)) = concat (remaining i ts)
                    \<and> length (fst (snd (fold_sets fs ts i))) = length (concat ts) - length (ts ! i))"
proof -
  have len: "length ts = length fs" "2 \<le> length fs" using assms(3-5) by simp_all
  have "returned (bnd (subset_generation lib features targets)
                     (\<lambda>(fsplit, tsplit). cv_loop lib fsplit tsplit) w)
           = Some ([0..<nsplit], map (\<lambda>i. fold_error G P E (fold_sets fs ts i)) [0..<nsplit])"
    using subset_generation_then_loop [OF assms(1,2) len assms(6-8)] assms(3) by simp
  moreover have "map (\<lambda>i. fst (snd (snd (fold_sets fs ts i)))) [0..<nsplit] = fs"
    using assms(3) map_nth [of fs] by (auto simp: fold_sets_def)
  moreover have "map (\<lambda>i. snd (snd (snd (fold_sets fs ts i)))) [0..<nsplit] = ts"
    using assms(4) map_nth [of ts] by (auto simp: fold_sets_def)
  moreover have "\<forall>i<nsplit. fst (fold_sets fs ts i) = concat (remaining i fs)
                    \<and> length (fst (fold_sets fs ts i)) = length (concat fs) - length (fs ! i)"
    using assms(3) by (auto simp add: fold_sets_def length_concat_remaining simp del: length_concat)
  moreover have "\<forall>i<nsplit. fst (snd (fold_sets fs ts i)) = concat (remaining i ts)
                    \<and> length (fst (snd (fold_sets fs ts i))) = length (concat ts) - length (ts ! i)"
    using assms(4) by (auto simp add: fold_sets_def length_concat_remaining simp del: length_concat)
  ultimately show ?thesis by blast
qed

theorem cv_loop_folds_witness:
  "k_fold demo_lib [1, 2, 3, 4, 5] [10, 20, 30, 40, 50] 5
     = Inr ([[1], [2], [3], [4], [5]], [[10], [20], [30], [40], [50]])
   \<and> returned (bnd (subset_generation demo_lib [1, 2, 3, 4, 5] [10, 20, 30, 40, 50])
                 (\<lambda>(fsplit, tsplit). cv_loop demo_lib fsplit tsplit) empty_world)
       = Some ([0, 1, 2, 3, 4], [10, 20, 30, 40, 50])
   \<and> fold_sets [[1], [2], [3], [4], [5::nat]] [[10], [20], [30], [40], [50::nat]] 1
       = ([1, 3, 4, 5], [10, 30, 40, 50], [2], [20])"
proof -
  have 1: "raises demo_lib = (\<lambda>_ _. None)" by (simp add: demo_lib_def)
  have 2: "k_fold demo_lib [1, 2, 3, 4, 5] [10, 20, 30, 40, 50] 5
      = Inr ([[1], [2], [3], [4], [5]], [[10], [20], [30], [40], [50]])"
    by (simp add: demo_lib_def)
  have 3: "length [[1], [2], [3], [4], [5::nat]] = 5" "length [[10], [20], [30], [40], [50::nat]] = 5"
    "2 \<le> (5::nat)"
    by simp_all
  have 4: "GaussianProcess demo_lib = (\<lambda>a b. Inr (a, b))"
    "predict demo_lib = (\<lambda>g t. Inr (g, t))"
    "get_error demo_lib = (\<lambda>p t. Inr (real (sum_list t)))"
    by (simp_all add: demo_lib_def)
  show ?thesis
    using cv_loop_folds [OF 1 2 3 4, of empty_world] 2
    by (simp add: fold_error_def fold_sets_def remaining_def upt_rec)
qed

text \<open>
  Claim C7. The loop leaves the lists \<open>fsplit\<close> and \<open>tsplit\<close> unchanged: every pass pops
  from shallow copies only, so when the loop is over both list objects still hold all their
  subsets in the original order. This holds in the world the loop ends in, whether it
  returns or raises.
\<close>

theorem cv_loop_frame:
  assumes "fsplit < fresh w" and "tsplit < fresh w"
  shows "heap (final (cv_loop lib fsplit tsplit w)) fsplit = heap w fsplit
       \<and> heap (final (cv_loop lib fsplit tsplit w)) tsplit = heap w tsplit"
proof -
  have "kept a (heap w a) (final (cv_loop lib fsplit tsplit w))" if "a < fresh w" for a
    using kept_cv_loop [of a "heap w a" lib fsplit tsplit] that
    unfolding triple_def
    by (cases "cv_loop lib fsplit tsplit w") (auto simp: kept_def split: prod.splits)
  then show ?thesis using assms by (simp add: kept_def)
qed

theorem cv_loop_frame_witness:
  "(0::nat) < fresh demo_world \<and> (1::nat) < fresh demo_world
   \<and> heap (final (cv_loop demo_lib 0 1 demo_world)) 0 = Some [[1], [2], [3], [4], [5]]
   \<and> heap (final (cv_loop demo_lib 0 1 demo_world)) 1 = Some [[10], [20], [30], [40], [50]]"
  using cv_loop_frame [of 0 demo_world 1 demo_lib]
  by (simp add: demo_world_def)

subsection \<open>What the loop composes\<close>




subsection \<open>The averaged error\<close>




section \<open>The calls of the ML-NEB notebook\<close>

text \<open>
  Claim C1, as stated: for every invocation in the notebooks, the keyword parameters passed
  into \<open>MLNEB(...)\<close> are exactly the start and end trajectory files, the number of images,
  the interpolation mode and the restart flag. They are not: every invocation also passes
  the calculator as \<open>ase_calc\<close>. The statement at position 20 of a complete run is the
  first \<open>MLNEB(...)\<close>.
\<close>

theorem mlneb_keywords_counterexample:
  "is_call ''MLNEB'' (trace (final (mlneb_notebook demo_lib empty_world)) ! 20)
   \<and> ''ase_calc'' \<in> set (kw_names (trace (final (mlneb_notebook demo_lib empty_world)) ! 20))
   \<and> ''ase_calc'' \<notin> set [''start'', ''end'', ''n_images'', ''interpolation'', ''restart'']"
  by (simp add: mlneb_demo_trace mlneb_script_def cell_defs kw_names_def)

text \<open>
  Claim C1, amended: for every invocation in the notebooks, the keyword parameters passed
  into \<open>MLNEB(...)\<close> are exactly \<open>start\<close>, \<open>end\<close>, \<open>ase_calc\<close> (the calculator), \<open>n_images\<close>,
  \<open>interpolation\<close> and \<open>restart\<close>, and the keyword parameters passed into \<open>.run(...)\<close> of an
  MLNEB object are drawn from \<open>fmax\<close>, \<open>steps\<close>, \<open>unc_convergence\<close> and \<open>trajectory\<close>, each
  of which is used in a run that ends without an exception. There is no positional argument.
  This holds for the statements that are executed, whatever the library does. The
  cross-validation notebook constructs no MLNEB object and calls no \<open>run\<close>.
\<close>

theorem mlneb_keywords_exact:
  assumes "trace w = []" and "trace w' = []"
  shows "(\<forall>s\<in>set (trace (final (mlneb_notebook lib w))).
            is_call ''MLNEB'' s \<longrightarrow> args_of s = [] \<and> kw_names s = mlneb_keywords)
       \<and> (\<forall>s\<in>set (calls_on ''MLNEB'' ''run'' [] (trace (final (mlneb_notebook lib w)))).
            args_of s = [] \<and> set (kw_names s) \<subseteq> set run_keywords)
       \<and> (raised (mlneb_notebook lib w) = None \<longrightarrow>
            (\<Union>s\<in>set (calls_on ''MLNEB'' ''run'' [] (trace (final (mlneb_notebook lib w)))).
               set (kw_names s)) = set run_keywords)
       \<and> (\<forall>s\<in>set (trace (final (kfold_notebook lib' w'))).
            \<not> is_call ''MLNEB'' s \<and> \<not> is_method ''run'' s)"
proof -
  let ?t = "trace (final (mlneb_notebook lib w))"
  have p: "prefix ?t mlneb_script" using assms(1) by (rule mlneb_trace_prefix)
  have "set ?t \<subseteq> set mlneb_script" using p by (rule set_mono_prefix)
  moreover have "list_all (\<lambda>s. is_call ''MLNEB'' s \<longrightarrow> args_of s = [] \<and> kw_names s = mlneb_keywords) mlneb_script"
    by (simp add: mlneb_script_def cell_defs kw_names_def mlneb_keywords_def)
  ultimately have a: "\<forall>s\<in>set ?t. is_call ''MLNEB'' s \<longrightarrow> args_of s = [] \<and> kw_names s = mlneb_keywords"
    by (auto simp: list_all_iff)
  have "set (calls_on ''MLNEB'' ''run'' [] ?t) \<subseteq> set (calls_on ''MLNEB'' ''run'' [] mlneb_script)"
    using prefix_calls_on [OF p] by (rule set_mono_prefix)
  moreover have "list_all (\<lambda>s. args_of s = [] \<and> set (kw_names s) \<subseteq> set run_keywords)
      (calls_on ''MLNEB'' ''run'' [] mlneb_script)"
    by (simp add: script_runs cell_defs kw_names_def run_keywords_def)
  ultimately have b: "\<forall>s\<in>set (calls_on ''MLNEB'' ''run'' [] ?t).
      args_of s = [] \<and> set (kw_names s) \<subseteq> set run_keywords"
    by (auto simp: list_all_iff)
  have c: "raised (mlneb_notebook lib w) = None \<longrightarrow>
      (\<Union>s\<in>set (calls_on ''MLNEB'' ''run'' [] ?t). set (kw_names s)) = set run_keywords"
  proof
    assume "raised (mlneb_notebook lib w) = None"
    then have "?t = mlneb_script" using assms(1) by (intro mlneb_trace_returns)
    then show "(\<Union>s\<in>set (calls_on ''MLNEB'' ''run'' [] ?t). set (kw_names s)) = set run_keywords"
      using script_run_union by simp
  qed
  have d: "\<forall>s\<in>set (trace (final (kfold_notebook lib' w'))).
      \<not> is_call ''MLNEB'' s \<and> \<not> is_method ''run'' s"
    using kfold_trace [OF assms(2), of lib'] by (auto simp: list_all_iff kfold_stmt_def)
  from a b c d show ?thesis by blast
qed

theorem mlneb_keywords_exact_witness:
  "trace empty_world = []
   \<and> is_call ''MLNEB'' (run_cell ! 1)
   \<and> run_cell ! 1 \<in> set (trace (final (mlneb_notebook demo_lib empty_world)))
   \<and> kw_names (run_cell ! 1) = [''start'', ''end'', ''ase_calc'', ''n_images'', ''interpolation'', ''restart'']
   \<and> raised (mlneb_notebook demo_lib empty_world) = None
   \<and> (\<Union>s\<in>set (calls_on ''MLNEB'' ''run'' [] (trace (final (mlneb_notebook demo_lib empty_world)))).
         set (kw_names s)) = {''fmax'', ''steps'', ''unc_convergence'', ''trajectory''}"
proof -
  have e: "trace empty_world = []" by (simp add: empty_world_def)
  have r: "raised (mlneb_notebook demo_lib empty_world) = None"
    by (simp add: mlneb_notebook_def perform_all_never demo_lib_def)
  have m: "run_cell ! 1 \<in> set (trace (final (mlneb_notebook demo_lib empty_world)))"
    by (simp add: mlneb_demo_trace mlneb_script_def run_cell_def)
  have c: "is_call ''MLNEB'' (run_cell ! 1)" by (simp add: run_cell_def)
  show ?thesis
    using mlneb_keywords_exact [OF e e, of demo_lib demo_lib] e r m c
    by (auto simp: mlneb_keywords_def run_keywords_def)
qed



text \<open>
  Claim C8. The ML-NEB notebook is a strictly sequential script: the slab is built, the
  initial and the final end-point are relaxed with BFGS to \<open>fmax=0.01\<close> (with the
  trajectory files \<open>initial.traj\<close> and \<open>final.traj\<close>), then MLNEB is instantiated, then its
  \<open>run\<close> is called, then the path is plotted; in particular both relaxations have been run
  before any MLNEB object is constructed. After the first plot the notebook goes through
  instantiate and run three more times and plots again. Whatever the library does, the
  stages that are executed are a prefix of \<open>mlneb_stages\<close>, and all of them when no call
  raises.
\<close>

theorem mlneb_sequence:
  assumes "trace w = []"
  shows "prefix (stages [] (trace (final (mlneb_notebook lib w)))) mlneb_stages
       \<and> (raised (mlneb_notebook lib w) = None
            \<longrightarrow> stages [] (trace (final (mlneb_notebook lib w))) = mlneb_stages)
       \<and> (NewMLNEB \<in> set (stages [] (trace (final (mlneb_notebook lib w))))
            \<longrightarrow> take 3 (stages [] (trace (final (mlneb_notebook lib w))))
                 = [BuildSlab, Relax ''initial.traj'' (PDec 1 2), Relax ''final.traj'' (PDec 1 2)])"
proof -
  let ?st = "stages [] (trace (final (mlneb_notebook lib w)))"
  have p: "prefix ?st mlneb_stages"
    using prefix_stages [OF mlneb_trace_prefix [OF assms], of "[]" lib] stages_mlneb_script by simp
  have r: "raised (mlneb_notebook lib w) = None \<longrightarrow> ?st = mlneb_stages"
  proof
    assume "raised (mlneb_notebook lib w) = None"
    then have "trace (final (mlneb_notebook lib w)) = mlneb_script"
      using assms by (intro mlneb_trace_returns)
    then show "?st = mlneb_stages" using stages_mlneb_script by simp
  qed
  have f: "NewMLNEB \<in> set ?st \<longrightarrow>
      take 3 ?st = [BuildSlab, Relax ''initial.traj'' (PDec 1 2), Relax ''final.traj'' (PDec 1 2)]"
  proof
    assume "NewMLNEB \<in> set ?st"
    moreover have "NewMLNEB \<notin> set (take 3 mlneb_stages)" by (simp add: mlneb_stages_def)
    ultimately have "take 3 ?st = take 3 mlneb_stages" using p by (intro prefix_take_3)
    then show "take 3 ?st = [BuildSlab, Relax ''initial.traj'' (PDec 1 2), Relax ''final.traj'' (PDec 1 2)]"
      by (simp add: mlneb_stages_def)
  qed
  from p r f show ?thesis by blast
qed

theorem mlneb_sequence_witness:
  "trace empty_world = []
   \<and> raised (mlneb_notebook demo_lib empty_world) = None
   \<and> stages [] (trace (final (mlneb_notebook demo_lib empty_world)))
       = [BuildSlab, Relax ''initial.traj'' (PDec 1 2), Relax ''final.traj'' (PDec 1 2),
          NewMLNEB, RunMLNEB, Plot,
          NewMLNEB, RunMLNEB, NewMLNEB, RunMLNEB, NewMLNEB, RunMLNEB, Plot]"
proof -
  have e: "trace empty_world = []" by (simp add: empty_world_def)
  have r: "raised (mlneb_notebook demo_lib empty_world) = None"
    by (simp add: mlneb_notebook_def perform_all_never demo_lib_def)
  show ?thesis using mlneb_sequence [OF e, of demo_lib] e r by (simp add: mlneb_stages_def)
qed

section \<open>Files\<close>




section \<open>Exceptions\<close>



end
